theory Spec2Isabelle
  imports Complex_Main "HOL-Library.Multiset"
begin

section \<open>Python values shared by the embedding\<close>

text \<open>
  Exceptions of the Python sources are values: a function that can raise returns
  \<open>py_error + 'a\<close>, with \<open>Inl\<close> the exception. Python floats are embedded as
  \<open>real\<close> (exact arithmetic, no NaN, no rounding); where NumPy would produce NaN
  (the mean of an empty array) the value is \<open>None\<close>.
\<close>

datatype py_error =
    ValueError string
  | NotImplementedError string
  | ZeroDivisionError
  | IndexError
  | AssertionError string
  | UnboundLocalError string

section \<open>\<open>bin_search_sigma\<close> (utils.py)\<close>

text \<open>
  The accountant \<open>fourier_accountant.get_epsilon_S\<close> is an external library: it is a
  parameter \<open>get_epsilon_S target_delta sigma q ncomp nx L\<close>. The calls of the logger are
  kept as records, in the order the function emits them.
\<close>

type_synonym accountant = "real \<Rightarrow> real \<Rightarrow> real \<Rightarrow> int \<Rightarrow> int \<Rightarrow> real \<Rightarrow> real"

datatype log_record =
    Debug_iter nat real real real real
  | Debug_found real real
  | Info_did_not_converge real real

text \<open>The local variables of the function; \<open>cur\<close> and \<open>eps\<close> are unbound until the
  first iteration assigns them.\<close>

record bss_locals =
  lbound :: real
  ubound :: real
  cur :: "real option"
  eps :: "real option"

datatype bss_flow = Returned real | Continue bss_locals

text \<open>One pass through the body of the \<open>for\<close> loop (lines 558 to 570).\<close>

definition bss_body ::
  "accountant \<Rightarrow> real \<Rightarrow> int \<Rightarrow> real \<Rightarrow> real \<Rightarrow> int \<Rightarrow> real \<Rightarrow> real \<Rightarrow>
   nat \<Rightarrow> bss_locals \<Rightarrow> log_record list \<times> bss_flow" where
  "bss_body get_epsilon_S target_eps ncomp target_delta q nx L tol i_iter s =
    (let c = (ubound s + lbound s) / 2;
         e = get_epsilon_S target_delta c q ncomp nx L;
         s1 = s\<lparr>cur := Some c, eps := Some e\<rparr>;
         l1 = [Debug_iter i_iter c e (ubound s) (lbound s)]
     in if \<bar>e - target_eps\<bar> \<le> tol then (l1 @ [Debug_found e c], Returned c)
        else if e < target_eps then (l1, Continue (s1\<lparr>ubound := c\<rparr>))
        else (l1, Continue (s1\<lparr>lbound := c\<rparr>)))"

text \<open>The \<open>for\<close> loop over \<open>range(max_iters)\<close>: the list holds the remaining values of
  \<open>i_iter\<close>. A \<open>return\<close> inside the body leaves the loop.\<close>

fun bss_loop ::
  "accountant \<Rightarrow> real \<Rightarrow> int \<Rightarrow> real \<Rightarrow> real \<Rightarrow> int \<Rightarrow> real \<Rightarrow> real \<Rightarrow>
   nat list \<Rightarrow> bss_locals \<Rightarrow> log_record list \<times> bss_flow" where
  "bss_loop get_epsilon_S target_eps ncomp target_delta q nx L tol [] s = ([], Continue s)"
| "bss_loop get_epsilon_S target_eps ncomp target_delta q nx L tol (i_iter # rest) s =
    (case bss_body get_epsilon_S target_eps ncomp target_delta q nx L tol i_iter s of
       (l, Returned c) \<Rightarrow> (l, Returned c)
     | (l, Continue s') \<Rightarrow>
         (case bss_loop get_epsilon_S target_eps ncomp target_delta q nx L tol rest s' of
            (l', r) \<Rightarrow> (l @ l', r)))"

text \<open>
  The whole function. After the loop the function logs the last \<open>cur\<close> and \<open>eps\<close> and
  falls off its end, which returns \<open>None\<close>. When the loop body never ran
  (\<open>max_iters \<le> 0\<close>) the two names are unbound and formatting the message raises.
\<close>

definition bin_search_sigma ::
  "accountant \<Rightarrow> real \<Rightarrow> int \<Rightarrow> real \<Rightarrow> real \<Rightarrow> int \<Rightarrow> real \<Rightarrow> real \<Rightarrow> real \<Rightarrow> real \<Rightarrow> int \<Rightarrow>
   log_record list \<times> (py_error + real option)" where
  "bin_search_sigma get_epsilon_S target_eps ncomp target_delta q nx L lbound0 ubound0 tol max_iters =
    (case bss_loop get_epsilon_S target_eps ncomp target_delta q nx L tol [0..<nat max_iters]
            \<lparr>lbound = lbound0, ubound = ubound0, cur = None, eps = None\<rparr> of
       (l, Returned c) \<Rightarrow> (l, Inr (Some c))
     | (l, Continue s) \<Rightarrow>
         (case cur s of
            None \<Rightarrow> (l, Inl (UnboundLocalError ''cur''))
          | Some c \<Rightarrow>
              (case eps s of
                 None \<Rightarrow> (l, Inl (UnboundLocalError ''eps''))
               | Some e \<Rightarrow> (l @ [Info_did_not_converge c e], Inr None))))"

text \<open>
  The bisection as the specification words it, for comparison with the loop above: the
  bracket after \<open>k\<close> narrowing steps, and the candidate of step \<open>k\<close>, its midpoint.
\<close>

definition spec_midpoint :: "real \<times> real \<Rightarrow> real" where
  "spec_midpoint b = (fst b + snd b) / 2"

definition spec_narrow :: "(real \<Rightarrow> real) \<Rightarrow> real \<Rightarrow> real \<times> real \<Rightarrow> real \<times> real" where
  "spec_narrow acc target b =
     (if acc (spec_midpoint b) < target then (fst b, spec_midpoint b) else (spec_midpoint b, snd b))"

fun spec_bracket :: "(real \<Rightarrow> real) \<Rightarrow> real \<Rightarrow> nat \<Rightarrow> real \<times> real \<Rightarrow> real \<times> real" where
  "spec_bracket acc target 0 b = b"
| "spec_bracket acc target (Suc k) b = spec_bracket acc target k (spec_narrow acc target b)"

definition spec_candidate :: "(real \<Rightarrow> real) \<Rightarrow> real \<Rightarrow> real \<times> real \<Rightarrow> nat \<Rightarrow> real" where
  "spec_candidate acc target b k = spec_midpoint (spec_bracket acc target k b)"

section \<open>NumPy operations used by the data partitioner\<close>

text \<open>
  Arrays are lists. \<open>py_slice_to xs k\<close> is \<open>xs[:k]\<close> and \<open>py_slice_from xs k\<close> is
  \<open>xs[k:]\<close>; a negative bound counts from the end, as in Python.
\<close>

definition py_slice_to :: "'a list \<Rightarrow> int \<Rightarrow> 'a list" where
  "py_slice_to xs k =
     (if 0 \<le> k then take (nat k) xs else take (nat (int (length xs) + k)) xs)"

definition py_slice_from :: "'a list \<Rightarrow> int \<Rightarrow> 'a list" where
  "py_slice_from xs k =
     (if 0 \<le> k then drop (nat k) xs else drop (nat (int (length xs) + k)) xs)"

text \<open>\<open>np.where(mask)\<close>: the indices at which the mask holds, in increasing order.\<close>

definition np_where :: "bool list \<Rightarrow> nat list" where
  "np_where bs = filter (\<lambda>i. bs ! i) [0..<length bs]"

text \<open>\<open>xs[inds]\<close> for an index array: an index past the end raises.\<close>

definition np_index :: "'a list \<Rightarrow> nat list \<Rightarrow> py_error + 'a list" where
  "np_index xs inds =
     (if list_all (\<lambda>i. i < length xs) inds then Inr (map (\<lambda>i. xs ! i) inds) else Inl IndexError)"

text \<open>\<open>np.mean(mask)\<close> of a Boolean array: the share of true entries; NaN (here
  \<open>None\<close>) for the empty array.\<close>

definition np_mean_bool :: "bool list \<Rightarrow> real option" where
  "np_mean_bool bs =
     (if bs = [] then None
      else Some (real (length (filter (\<lambda>b. b) bs)) / real (length bs)))"

text \<open>
  NumPy's global random generator is an external library. Its state is a value of some
  type \<open>'g\<close>; \<open>np.random.seed\<close> and \<open>np.random.permutation\<close> are parameters:
  \<open>np_seed R sd\<close> is the state after seeding with \<open>sd\<close>, and
  \<open>np_permutation R g n\<close> is the permutation of \<open>range(n)\<close> drawn in state \<open>g\<close>, with
  the state after the draw. \<open>np.random.get_state\<close> reads the state and
  \<open>np.random.set_state\<close> writes it.
\<close>

record 'g np_random =
  np_seed :: "int \<Rightarrow> 'g"
  np_permutation :: "'g \<Rightarrow> nat \<Rightarrow> nat list \<times> 'g"


section \<open>\<open>generate_clients_data\<close> (utils.py)\<close>

text \<open>A client's shard, the dictionary \<open>{'x': ..., 'y': ...}\<close>. Rows of \<open>x\<close> are of any
  type \<open>'a\<close>; labels are numbers.\<close>

record 'a client_data =
  data_x :: "'a list"
  data_y :: "real list"

text \<open>
  The first loop (lines 506 to 525): each of the \<open>M/2\<close> small clients takes its share
  from the front of the positive and of the negative examples, and shuffles it. The
  arguments after the counter are the variables the loop updates: \<open>x_pos\<close>, \<open>y_pos\<close>,
  \<open>x_neg\<close>, \<open>y_neg\<close>, \<open>client_data\<close> and the generator's state. Indexing with a
  drawn permutation cannot leave the array.
\<close>

fun small_clients ::
  "'g np_random \<Rightarrow> int \<Rightarrow> int \<Rightarrow> nat \<Rightarrow> 'a list \<Rightarrow> real list \<Rightarrow> 'a list \<Rightarrow> real list \<Rightarrow>
   'a client_data list \<Rightarrow> 'g \<Rightarrow>
   'a list \<times> real list \<times> 'a list \<times> real list \<times> 'a client_data list \<times> 'g" where
  "small_clients R pos_size neg_size 0 xp yp xn yn cd g = (xp, yp, xn, yn, cd, g)"
| "small_clients R pos_size neg_size (Suc n) xp yp xn yn cd g =
    (let client_x_pos = py_slice_to xp pos_size;
         xp' = py_slice_from xp pos_size;
         client_y_pos = py_slice_to yp pos_size;
         yp' = py_slice_from yp pos_size;
         client_x_neg = py_slice_to xn neg_size;
         xn' = py_slice_from xn neg_size;
         client_y_neg = py_slice_to yn neg_size;
         yn' = py_slice_from yn neg_size;
         client_x = client_x_pos @ client_x_neg;
         client_y = client_y_pos @ client_y_neg;
         (shuffle_inds, g') = np_permutation R g (length client_x)
     in small_clients R pos_size neg_size n xp' yp' xn' yn'
          (cd @ [\<lparr>data_x = map (\<lambda>i. client_x ! i) shuffle_inds,
                   data_y = map (\<lambda>i. client_y ! i) shuffle_inds\<rparr>]) g')"

text \<open>The second loop (lines 536 to 543): the large clients take consecutive slices of
  the shuffled remainder.\<close>

fun big_clients ::
  "int \<Rightarrow> nat \<Rightarrow> 'a list \<Rightarrow> real list \<Rightarrow> 'a client_data list \<Rightarrow> 'a client_data list" where
  "big_clients big_client_size 0 xs ys cd = cd"
| "big_clients big_client_size (Suc n) xs ys cd =
    big_clients big_client_size n
      (py_slice_from xs big_client_size) (py_slice_from ys big_client_size)
      (cd @ [\<lparr>data_x = py_slice_to xs big_client_size,
               data_y = py_slice_to ys big_client_size\<rparr>])"

text \<open>The sizes computed in lines 472 to 479.\<close>

definition small_client_size :: "nat \<Rightarrow> int \<Rightarrow> real \<Rightarrow> int" where
  "small_client_size N M client_size_factor = \<lfloor>(1 - client_size_factor) * real N / real_of_int M\<rfloor>"

definition big_client_size :: "nat \<Rightarrow> int \<Rightarrow> real \<Rightarrow> int" where
  "big_client_size N M client_size_factor = \<lfloor>(1 + client_size_factor) * real N / real_of_int M\<rfloor>"

definition small_client_negative_class_size :: "nat \<Rightarrow> int \<Rightarrow> real \<Rightarrow> real \<Rightarrow> real \<Rightarrow> int" where
  "small_client_negative_class_size N M client_size_factor class_balance_factor class_balance =
     \<lfloor>real_of_int (small_client_size N M client_size_factor)
        * (class_balance + (1 - class_balance) * class_balance_factor)\<rfloor>"

definition small_client_positive_class_size :: "nat \<Rightarrow> int \<Rightarrow> real \<Rightarrow> real \<Rightarrow> real \<Rightarrow> int" where
  "small_client_positive_class_size N M client_size_factor class_balance_factor class_balance =
     small_client_size N M client_size_factor
       - small_client_negative_class_size N M client_size_factor class_balance_factor class_balance"

text \<open>
  The function. It takes the generator's global state and returns it with its result:
  the tuple \<open>(client_data, N_is, props_positive, M)\<close> or the exception raised. The two
  messages that quote the factors are kept up to the factors. Dividing by \<open>M = 0\<close>
  raises; the mean of an empty \<open>y\<close> is NaN, and \<open>int\<close> of NaN raises.
\<close>

definition generate_clients_data ::
  "'g np_random \<Rightarrow> 'a list \<Rightarrow> real list \<Rightarrow> int \<Rightarrow> real \<Rightarrow> real \<Rightarrow> int option \<Rightarrow> 'g \<Rightarrow>
   (py_error + 'a client_data list \<times> int list \<times> real option list \<times> int) \<times> 'g" where
  "generate_clients_data R x y M client_size_factor class_balance_factor dataset_seed g0 =
    (let random_state = g0;
         g1 = (case dataset_seed of None \<Rightarrow> g0 | Some sd \<Rightarrow> np_seed R sd)
     in
     if M = 1 then
       (Inr ([\<lparr>data_x = x, data_y = y\<rparr>], [int (length x)],
             [np_mean_bool (map (\<lambda>v. v > 0) y)], M), g1)
     else if M mod 2 \<noteq> 0 then
       (Inl (ValueError ''Num clients should be even for nice maths''), g1)
     else if M = 0 then (Inl ZeroDivisionError, g1)
     else
       (let N = length x;
            small = small_client_size N M client_size_factor;
            big = big_client_size N M client_size_factor
        in
        case np_mean_bool (map (\<lambda>v. v = 0) y) of
          None \<Rightarrow> (Inl (ValueError ''cannot convert float NaN to integer''), g1)
        | Some class_balance \<Rightarrow>
           (let neg_size = small_client_negative_class_size N M client_size_factor
                             class_balance_factor class_balance;
                pos_size = small_client_positive_class_size N M client_size_factor
                             class_balance_factor class_balance
            in
            if neg_size < 0 then
              (Inl (ValueError ''small_client_negative_class_size is negative, invalid settings.''), g1)
            else if pos_size < 0 then
              (Inl (ValueError ''small_client_positive_class_size is negative, invalid settings.''), g1)
            else if real_of_int neg_size * real_of_int M / 2 > class_balance * real N then
              (Inl (ValueError ''Not enough negative class instances to fill the small clients.''), g1)
            else if real_of_int pos_size * real_of_int M / 2 > (1 - class_balance) * real N then
              (Inl (ValueError ''Not enough positive class instances to fill the small clients.''), g1)
            else
              (let pos_inds = np_where (map (\<lambda>v. v > 0) y);
                   zero_inds = np_where (map (\<lambda>v. v = 0) y)
               in
               if length pos_inds + length zero_inds \<noteq> length y then
                 (Inl (AssertionError ''Some indeces missed.''), g1)
               else
                 (let y_pos = map (\<lambda>i. y ! i) pos_inds;
                      y_neg = map (\<lambda>i. y ! i) zero_inds
                  in
                  case np_index x pos_inds of
                    Inl e \<Rightarrow> (Inl e, g1)
                  | Inr x_pos \<Rightarrow>
                     (case np_index x zero_inds of
                        Inl e \<Rightarrow> (Inl e, g1)
                      | Inr x_neg \<Rightarrow>
                         (let (xp, yp, xn, yn, cd, g2) =
                                small_clients R pos_size neg_size (nat (M div 2))
                                  x_pos y_pos x_neg y_neg [] g1;
                              xr = xp @ xn;
                              yr = yp @ yn;
                              (shuffle_inds, g3) = np_permutation R g2 (length xr);
                              xs = map (\<lambda>i. xr ! i) shuffle_inds;
                              ys = map (\<lambda>i. yr ! i) shuffle_inds;
                              client_data = big_clients big (nat (M div 2)) xs ys cd;
                              N_is = map (\<lambda>d. int (length (data_x d))) client_data;
                              props_positive =
                                map (\<lambda>d. np_mean_bool (map (\<lambda>v. v > 0) (data_y d))) client_data;
                              g4 = (case dataset_seed of None \<Rightarrow> g3 | Some sd \<Rightarrow> random_state)
                          in (Inr (client_data, N_is, props_positive, M), g4))))))))"

text \<open>
  A generator for worked instances: its state counts the draws since the seed, seeding
  with \<open>sd\<close> sets it to \<open>\<bar>sd\<bar>\<close>, and every draw is the reversal of \<open>0, ..., n - 1\<close>.
\<close>

definition example_random :: "nat np_random" where
  "example_random = \<lparr>np_seed = (\<lambda>sd. nat \<bar>sd\<bar>), np_permutation = (\<lambda>g n. (rev [0..<n], Suc g))\<rparr>"

section \<open>\<open>get_posneg\<close> (utils.py)\<close>

text \<open>
  \<open>a[m]\<close> for a Boolean mask \<open>m\<close>: the entries of \<open>a\<close> where the mask holds; a mask of
  another length raises.
\<close>

definition np_mask :: "'a list \<Rightarrow> bool list \<Rightarrow> py_error + 'a list" where
  "np_mask a m =
     (if length a = length m then Inr (map fst (filter snd (zip a m))) else Inl IndexError)"

text \<open>Comparing a Boolean with a number, as NumPy does entry by entry: \<open>True\<close> is 1 and
  \<open>False\<close> is 0.\<close>

definition np_eq_bool :: "bool \<Rightarrow> real \<Rightarrow> bool" where
  "np_eq_bool b v = ((if b then 1 else 0) = v)"

text \<open>\<open>np.linspace(0, 1, n)\<close>.\<close>

definition np_linspace01 :: "nat \<Rightarrow> real list" where
  "np_linspace01 n = map (\<lambda>i. real i / real (n - 1)) [0..<n]"

text \<open>
  The four counts at a threshold \<open>thr\<close>, each the \<open>np.sum\<close> of one line of the source:
  \<^verbatim>\<open>(pred_probs > thr)[y==1] == y[y==1]\<close>, \<^verbatim>\<open>(pred_probs > thr)[y==0] != y[y==0]\<close>,
  \<^verbatim>\<open>(pred_probs <= thr)[y==0] == 1-y[y==0]\<close>, \<^verbatim>\<open>(pred_probs <= thr)[y==1] != 1-y[y==1]\<close>.
\<close>

definition tp_count :: "real list \<Rightarrow> real list \<Rightarrow> real \<Rightarrow> py_error + int" where
  "tp_count y pred_probs thr =
     (case np_mask (map (\<lambda>p. p > thr) pred_probs) (map (\<lambda>v. v = 1) y) of
        Inl e \<Rightarrow> Inl e
      | Inr sel \<Rightarrow>
          Inr (int (length (filter (\<lambda>(b, v). np_eq_bool b v) (zip sel (filter (\<lambda>v. v = 1) y))))))"

definition fp_count :: "real list \<Rightarrow> real list \<Rightarrow> real \<Rightarrow> py_error + int" where
  "fp_count y pred_probs thr =
     (case np_mask (map (\<lambda>p. p > thr) pred_probs) (map (\<lambda>v. v = 0) y) of
        Inl e \<Rightarrow> Inl e
      | Inr sel \<Rightarrow>
          Inr (int (length (filter (\<lambda>(b, v). \<not> np_eq_bool b v) (zip sel (filter (\<lambda>v. v = 0) y))))))"

definition tn_count :: "real list \<Rightarrow> real list \<Rightarrow> real \<Rightarrow> py_error + int" where
  "tn_count y pred_probs thr =
     (case np_mask (map (\<lambda>p. p \<le> thr) pred_probs) (map (\<lambda>v. v = 0) y) of
        Inl e \<Rightarrow> Inl e
      | Inr sel \<Rightarrow>
          Inr (int (length (filter (\<lambda>(b, v). np_eq_bool b (1 - v))
                              (zip sel (filter (\<lambda>v. v = 0) y))))))"

definition fn_count :: "real list \<Rightarrow> real list \<Rightarrow> real \<Rightarrow> py_error + int" where
  "fn_count y pred_probs thr =
     (case np_mask (map (\<lambda>p. p \<le> thr) pred_probs) (map (\<lambda>v. v = 1) y) of
        Inl e \<Rightarrow> Inl e
      | Inr sel \<Rightarrow>
          Inr (int (length (filter (\<lambda>(b, v). \<not> np_eq_bool b (1 - v))
                              (zip sel (filter (\<lambda>v. v = 1) y))))))"

text \<open>The dictionary under construction, and the dictionary returned: the three scores
  of \<open>sklearn.metrics\<close> are added at the end.\<close>

record posneg_counts =
  TP :: "int list"
  FP :: "int list"
  TN :: "int list"
  FN :: "int list"
  n_points :: int

record posneg = posneg_counts +
  avg_prec_score :: real
  balanced_acc :: real
  f1_score :: real

text \<open>\<open>sklearn.metrics\<close> is an external library: its three scores are parameters.\<close>

record sk_metrics =
  average_precision_score :: "real list \<Rightarrow> real list \<Rightarrow> real"
  balanced_accuracy_score :: "real list \<Rightarrow> bool list \<Rightarrow> real"
  sk_f1_score :: "real list \<Rightarrow> bool list \<Rightarrow> real"

text \<open>The loop over \<open>enumerate(tmp)\<close> (lines 408 to 412): it writes the four counts of
  threshold number \<open>i_thr\<close> into the four arrays.\<close>

fun posneg_loop ::
  "real list \<Rightarrow> real list \<Rightarrow> (nat \<times> real) list \<Rightarrow> posneg_counts \<Rightarrow> py_error + posneg_counts" where
  "posneg_loop y pred_probs [] r = Inr r"
| "posneg_loop y pred_probs ((i_thr, thr) # rest) r =
    (case tp_count y pred_probs thr of
       Inl e \<Rightarrow> Inl e
     | Inr tp \<Rightarrow>
        (case fp_count y pred_probs thr of
           Inl e \<Rightarrow> Inl e
         | Inr fp \<Rightarrow>
            (case tn_count y pred_probs thr of
               Inl e \<Rightarrow> Inl e
             | Inr tn \<Rightarrow>
                (case fn_count y pred_probs thr of
                   Inl e \<Rightarrow> Inl e
                 | Inr fn \<Rightarrow>
                    posneg_loop y pred_probs rest
                      (r\<lparr>TP := (TP r)[i_thr := tp], FP := (FP r)[i_thr := fp],
                         TN := (TN r)[i_thr := tn], FN := (FN r)[i_thr := fn]\<rparr>)))))"

text \<open>The counts for \<open>n_points == 1\<close> (lines 392 to 398), at the threshold 0.5.\<close>

definition posneg_single :: "real list \<Rightarrow> real list \<Rightarrow> int \<Rightarrow> py_error + posneg_counts" where
  "posneg_single y pred_probs npoints =
    (case tp_count y pred_probs (1 / 2) of
       Inl e \<Rightarrow> Inl e
     | Inr tp \<Rightarrow>
        (case fp_count y pred_probs (1 / 2) of
           Inl e \<Rightarrow> Inl e
         | Inr fp \<Rightarrow>
            (case tn_count y pred_probs (1 / 2) of
               Inl e \<Rightarrow> Inl e
             | Inr tn \<Rightarrow>
                (case fn_count y pred_probs (1 / 2) of
                   Inl e \<Rightarrow> Inl e
                 | Inr fn \<Rightarrow>
                    Inr \<lparr>TP = [tp], FP = [fp], TN = [tn], FN = [fn], n_points = npoints\<rparr>))))"

text \<open>
  The function; \<open>npoints\<close> is its argument \<open>n_points\<close>. \<open>np.linspace\<close> refuses a negative
  number of points, and the scores of \<open>sklearn.metrics\<close> refuse arrays of different
  lengths.
\<close>

definition get_posneg :: "sk_metrics \<Rightarrow> real list \<Rightarrow> real list \<Rightarrow> int \<Rightarrow> py_error + posneg" where
  "get_posneg SK y pred_probs npoints =
    (if card (set y) = 2 then
       (case (if npoints = 1 then posneg_single y pred_probs npoints
              else if npoints < 0 then
                Inl (ValueError ''Number of samples must be non-negative.'')
              else posneg_loop y pred_probs (enumerate 0 (np_linspace01 (nat npoints)))
                     \<lparr>TP = replicate (nat npoints) 0, FP = replicate (nat npoints) 0,
                      TN = replicate (nat npoints) 0, FN = replicate (nat npoints) 0,
                      n_points = npoints\<rparr>) of
          Inl e \<Rightarrow> Inl e
        | Inr r \<Rightarrow>
            if length pred_probs \<noteq> length y then
              Inl (ValueError ''Found input variables with inconsistent numbers of samples'')
            else
              Inr \<lparr>TP = TP r, FP = FP r, TN = TN r, FN = FN r, n_points = n_points r,
                   avg_prec_score = average_precision_score SK y pred_probs,
                   balanced_acc = balanced_accuracy_score SK y (map (\<lambda>p. p > 1 / 2) pred_probs),
                   f1_score = sk_f1_score SK y (map (\<lambda>p. p > 1 / 2) pred_probs)\<rparr>)
     else Inl (NotImplementedError ''multiclass bal acc etc not implemented!''))"

text \<open>Scores that are constantly 0, for worked instances.\<close>

definition example_metrics :: sk_metrics where
  "example_metrics = \<lparr>average_precision_score = (\<lambda>yt ys. 0),
     balanced_accuracy_score = (\<lambda>yt yp. 0), sk_f1_score = (\<lambda>yt yp. 0)\<rparr>"

section \<open>The setup path: \<open>main\<close> (dp_logistic_regression.py) and \<open>set_up_clients\<close> (utils.py)\<close>

text \<open>
  The command-line arguments the checks read: \<open>args.dp_mode\<close>, \<open>args.model\<close>,
  \<open>args.batch_size\<close> and \<open>args.sampling_frac_q\<close>; the last two are \<open>None\<close> unless given.
\<close>

record args =
  args_dp_mode :: string
  args_model :: string
  args_batch_size :: "int option"
  args_sampling_frac_q :: "real option"

text \<open>
  The client classes are defined in \<open>pvi.clients\<close>, outside these sources. Creating a
  client is recorded as the class applied to the client's data; the model, the factor and
  the configuration passed along do not enter any check.
\<close>

datatype 'd client =
    LFA_Client 'd
  | Local_PVI_Client 'd
  | Param_DP_Client 'd
  | DPSGD_Client 'd
  | Client 'd

text \<open>The loop of \<open>set_up_clients\<close> over \<open>client_data\<close> (lines 49 to 86); \<open>clients\<close> is the
  list built so far.\<close>

primrec set_up_clients_loop ::
  "'d list \<Rightarrow> string \<Rightarrow> int option \<Rightarrow> real option \<Rightarrow> 'd client list \<Rightarrow> py_error + 'd client list" where
  "set_up_clients_loop [] dp_mode batch_size sampling_frac_q clients = Inr clients"
| "set_up_clients_loop (data # rest) dp_mode batch_size sampling_frac_q clients =
    (if dp_mode \<in> set [''lfa''] then
       set_up_clients_loop rest dp_mode batch_size sampling_frac_q (clients @ [LFA_Client data])
     else if dp_mode \<in> set [''local_pvi''] then
       set_up_clients_loop rest dp_mode batch_size sampling_frac_q (clients @ [Local_PVI_Client data])
     else if dp_mode \<in> set [''param''] then
       set_up_clients_loop rest dp_mode batch_size sampling_frac_q (clients @ [Param_DP_Client data])
     else if dp_mode \<in> set [''dpsgd''] then
       (if batch_size \<noteq> None \<and> sampling_frac_q \<noteq> None then
          Inl (NotImplementedError ''user level DP not implemented!'')
        else
          set_up_clients_loop rest dp_mode batch_size sampling_frac_q (clients @ [DPSGD_Client data]))
     else if dp_mode \<in> set [''nondp_epochs'', ''nondp_batches''] then
       set_up_clients_loop rest dp_mode batch_size sampling_frac_q (clients @ [Client data])
     else Inl (ValueError (''Unknown dp_mode: '' @ dp_mode @ ''!'')))"

definition set_up_clients ::
  "'d list \<Rightarrow> string \<Rightarrow> int option \<Rightarrow> real option \<Rightarrow> py_error + 'd client list" where
  "set_up_clients client_data dp_mode batch_size sampling_frac_q =
     set_up_clients_loop client_data dp_mode batch_size sampling_frac_q []"

text \<open>The message \<open>main\<close> logs once its checks have passed.\<close>

datatype main_info =
    User_level_SWOR
  | SWOR_sampling_frac
  | SWOR_batch_size
  | Sequential_sampling_frac
  | Sequential_batch_size
  | Batches_per_update
  | Epochs_per_update
  | No_message

text \<open>
  The argument checks of \<open>main\<close> (lines 60 to 93), in the order of the source. The two
  messages that quote the option names are kept without the quotes.
\<close>

definition main_checks :: "args \<Rightarrow> py_error + main_info" where
  "main_checks a =
    (if args_dp_mode a \<notin> set [''nondp_batches'', ''nondp_epochs'', ''dpsgd'', ''param'',
                                ''param_fixed'', ''server'', ''lfa'', ''local_pvi''] then
       Inl (ValueError (''Unknown dp_mode: '' @ args_dp_mode a))
     else if args_model a \<notin> set [''pvi'', ''bcm_split'', ''bcm_same'', ''global_vi''] then
       Inl (ValueError (''Unknown model: '' @ args_model a))
     else if args_dp_mode a \<in> set [''dpsgd'', ''param_fixed''] then
       (if args_sampling_frac_q a \<noteq> None \<and> args_batch_size a \<noteq> None then Inr User_level_SWOR
        else if args_sampling_frac_q a \<noteq> None then Inr SWOR_sampling_frac
        else if args_batch_size a \<noteq> None then Inr SWOR_batch_size
        else Inl (ValueError ''Need to set at least one of batch_size, sampling_frac_q!''))
     else if args_dp_mode a \<in> set [''lfa'', ''local_pvi'', ''param''] then
       (if args_batch_size a \<noteq> None \<and> args_sampling_frac_q a \<noteq> None then
          Inl (ValueError ''Exactly one of batch_size, sampling_frac_q needs to be None'')
        else if args_batch_size a = None then Inr Sequential_sampling_frac
        else if args_sampling_frac_q a = None then Inr Sequential_batch_size
        else Inr No_message)
     else
       (if args_dp_mode a \<in> set [''nondp_batches''] then Inr Batches_per_update
        else if args_dp_mode a \<in> set [''nondp_epochs''] then Inr Epochs_per_update
        else Inl (ValueError (''Unknown dp_mode: '' @ args_dp_mode a))))"

text \<open>
  \<open>main\<close> up to the creation of the clients (line 183), which comes before the server is
  built and before the first training step. Between the checks and \<open>set_up_clients\<close>
  the function seeds the generators, loads and splits the data and fills the
  configurations, none of which looks at the arguments above: \<open>client_data\<close> is the list
  of shards that \<open>standard_client_split\<close> returned.
\<close>

definition main_setup :: "args \<Rightarrow> 'd list \<Rightarrow> py_error + 'd client list" where
  "main_setup a client_data =
    (case main_checks a of
       Inl e \<Rightarrow> Inl e
     | Inr info \<Rightarrow>
         set_up_clients client_data (args_dp_mode a) (args_batch_size a) (args_sampling_frac_q a))"

section \<open>Properties of \<open>bin_search_sigma\<close>\<close>

lemma spec_candidate_Suc:
  "spec_candidate acc target b (Suc k) = spec_candidate acc target (spec_narrow acc target b) k"
  by (simp add: spec_candidate_def)

lemma spec_candidate_0: "spec_candidate acc target (lb, ub) 0 = (ub + lb) / 2"
  by (simp add: spec_candidate_def spec_midpoint_def add.commute)

lemma bss_body_fail:
  assumes "\<not> \<bar>G td ((ubound s + lbound s) / 2) q ncomp nx L - target\<bar> \<le> tol"
  shows "\<exists>l s'. bss_body G target ncomp td q nx L tol i s = (l, Continue s')
           \<and> (lbound s', ubound s') = spec_narrow (\<lambda>c. G td c q ncomp nx L) target (lbound s, ubound s)
           \<and> cur s' = Some ((ubound s + lbound s) / 2)
           \<and> eps s' = Some (G td ((ubound s + lbound s) / 2) q ncomp nx L)"
  using assms
  by (simp add: bss_body_def Let_def spec_narrow_def spec_midpoint_def add.commute)

lemma bss_loop_exhaust:
  assumes "\<forall>k<length js. \<not> \<bar>G td (spec_candidate (\<lambda>c. G td c q ncomp nx L) target (lbound s, ubound s) k) q ncomp nx L - target\<bar> \<le> tol"
  shows "\<exists>l s'. bss_loop G target ncomp td q nx L tol js s = (l, Continue s')
           \<and> (lbound s', ubound s') = spec_bracket (\<lambda>c. G td c q ncomp nx L) target (length js) (lbound s, ubound s)
           \<and> (js = [] \<longrightarrow> s' = s)
           \<and> (js \<noteq> [] \<longrightarrow>
                cur s' = Some (spec_candidate (\<lambda>c. G td c q ncomp nx L) target (lbound s, ubound s) (length js - 1))
              \<and> eps s' = Some (G td (spec_candidate (\<lambda>c. G td c q ncomp nx L) target (lbound s, ubound s) (length js - 1)) q ncomp nx L))"
  using assms
proof (induction js arbitrary: s)
  case Nil
  then show ?case by simp
next
  case (Cons i rest)
  let ?acc = "\<lambda>c. G td c q ncomp nx L"
  let ?b = "(lbound s, ubound s)"
  from Cons.prems have "\<not> \<bar>?acc (spec_candidate ?acc target ?b 0) - target\<bar> \<le> tol"
    by auto
  then have f0: "\<not> \<bar>G td ((ubound s + lbound s) / 2) q ncomp nx L - target\<bar> \<le> tol"
    by (simp add: spec_candidate_0)
  from bss_body_fail [where G=G and td=td and s=s and q=q and ncomp=ncomp and nx=nx and L=L and target=target and tol=tol and i=i, OF f0] obtain l s1 where
    b: "bss_body G target ncomp td q nx L tol i s = (l, Continue s1)"
    and n: "(lbound s1, ubound s1) = spec_narrow ?acc target ?b"
    and c1: "cur s1 = Some ((ubound s + lbound s) / 2)"
    and e1: "eps s1 = Some (G td ((ubound s + lbound s) / 2) q ncomp nx L)"
    by blast
  have "\<forall>k<length rest. \<not> \<bar>?acc (spec_candidate ?acc target (lbound s1, ubound s1) k) - target\<bar> \<le> tol"
  proof (intro allI impI)
    fix k assume "k < length rest"
    then have "Suc k < length (i # rest)" by simp
    with Cons.prems have "\<not> \<bar>?acc (spec_candidate ?acc target ?b (Suc k)) - target\<bar> \<le> tol"
      by blast
    then show "\<not> \<bar>?acc (spec_candidate ?acc target (lbound s1, ubound s1) k) - target\<bar> \<le> tol"
      by (simp add: spec_candidate_Suc n)
  qed
  from Cons.IH [OF this] obtain l' s' where
    r: "bss_loop G target ncomp td q nx L tol rest s1 = (l', Continue s')"
    and br: "(lbound s', ubound s') = spec_bracket ?acc target (length rest) (lbound s1, ubound s1)"
    and e: "rest = [] \<longrightarrow> s' = s1"
    and ne: "rest \<noteq> [] \<longrightarrow>
                cur s' = Some (spec_candidate ?acc target (lbound s1, ubound s1) (length rest - 1))
              \<and> eps s' = Some (?acc (spec_candidate ?acc target (lbound s1, ubound s1) (length rest - 1)))"
    by blast
  have run: "bss_loop G target ncomp td q nx L tol (i # rest) s = (l @ l', Continue s')"
    by (simp add: b r)
  have br': "(lbound s', ubound s') = spec_bracket ?acc target (length (i # rest)) ?b"
    using br n by simp
  have last: "cur s' = Some (spec_candidate ?acc target ?b (length (i # rest) - 1))
      \<and> eps s' = Some (?acc (spec_candidate ?acc target ?b (length (i # rest) - 1)))"
  proof (cases "rest = []")
    case True
    with e c1 e1 show ?thesis by (simp add: spec_candidate_0)
  next
    case False
    then obtain m where m: "length rest = Suc m" by (cases rest) auto
    with False ne n show ?thesis by (simp add: spec_candidate_Suc)
  qed
  from run br' last show ?case by blast
qed

lemma bss_body_log:
  "fst (bss_body G target ncomp td q nx L tol i s) \<noteq> []"
  by (simp add: bss_body_def Let_def)

lemma bss_body_Returned:
  assumes "bss_body G target ncomp td q nx L tol i s = (l, Returned c)"
  shows "\<bar>G td c q ncomp nx L - target\<bar> \<le> tol \<and> c = (ubound s + lbound s) / 2"
  using assms by (auto simp: bss_body_def Let_def split: if_splits)

lemma bss_loop_Returned:
  assumes "bss_loop G target ncomp td q nx L tol js s = (l, Returned c)"
  shows "\<bar>G td c q ncomp nx L - target\<bar> \<le> tol"
  using assms
proof (induction js arbitrary: s l)
  case Nil
  then show ?case by simp
next
  case (Cons i rest)
  obtain l1 r1 where b: "bss_body G target ncomp td q nx L tol i s = (l1, r1)"
    by (cases "bss_body G target ncomp td q nx L tol i s")
  show ?case
  proof (cases r1)
    case (Returned c1)
    with Cons.prems b have "c1 = c" by simp
    with b Returned bss_body_Returned show ?thesis by blast
  next
    case (Continue s1)
    obtain l2 r2 where r: "bss_loop G target ncomp td q nx L tol rest s1 = (l2, r2)"
      by (cases "bss_loop G target ncomp td q nx L tol rest s1")
    with Cons.prems b Continue have "r2 = Returned c" by simp
    with r Cons.IH show ?thesis by blast
  qed
qed

lemma bin_search_sigma_Some:
  assumes "snd (bin_search_sigma G target ncomp td q nx L lb ub tol max_iters) = Inr (Some c)"
  shows "\<bar>G td c q ncomp nx L - target\<bar> \<le> tol"
proof -
  obtain l r where r: "bss_loop G target ncomp td q nx L tol [0..<nat max_iters]
            \<lparr>lbound = lb, ubound = ub, cur = None, eps = None\<rparr> = (l, r)"
    by (cases "bss_loop G target ncomp td q nx L tol [0..<nat max_iters]
            \<lparr>lbound = lb, ubound = ub, cur = None, eps = None\<rparr>")
  with assms have "r = Returned c"
    by (cases r) (auto simp: bin_search_sigma_def split: option.splits)
  with r bss_loop_Returned show ?thesis by blast
qed

text \<open>
  Claim C2. When every candidate of the \<open>max_iters\<close> iterations fails the tolerance test
  \<open>\<bar>eps - target_eps\<bar> \<le> tol\<close>, the call hands no sigma to its caller: with at least one
  iteration it logs the "Did not converge" record for the last candidate and returns
  \<open>None\<close>; with no iteration at all (\<open>max_iters \<le> 0\<close>) building that record raises, as
  \<open>cur\<close> is unbound. And whatever the inputs, a returned sigma is a candidate that passed
  the tolerance test.
\<close>

theorem bin_search_sigma_no_convergence:
  "((\<forall>k<nat max_iters.
       \<not> \<bar>G td (spec_candidate (\<lambda>c. G td c q ncomp nx L) target (lb, ub) k) q ncomp nx L - target\<bar> \<le> tol)
     \<longrightarrow>
       (\<forall>c. snd (bin_search_sigma G target ncomp td q nx L lb ub tol max_iters) \<noteq> Inr (Some c))
     \<and> (0 < max_iters \<longrightarrow>
          (\<exists>l. bin_search_sigma G target ncomp td q nx L lb ub tol max_iters =
             (l @ [Info_did_not_converge
                     (spec_candidate (\<lambda>c. G td c q ncomp nx L) target (lb, ub) (nat max_iters - 1))
                     (G td (spec_candidate (\<lambda>c. G td c q ncomp nx L) target (lb, ub) (nat max_iters - 1))
                        q ncomp nx L)],
              Inr None)))
     \<and> (max_iters \<le> 0 \<longrightarrow>
          bin_search_sigma G target ncomp td q nx L lb ub tol max_iters =
            ([], Inl (UnboundLocalError ''cur''))))
   \<and> (\<forall>c. snd (bin_search_sigma G target ncomp td q nx L lb ub tol max_iters) = Inr (Some c)
          \<longrightarrow> \<bar>G td c q ncomp nx L - target\<bar> \<le> tol)"
proof (intro conjI impI allI)
  fix c
  assume "snd (bin_search_sigma G target ncomp td q nx L lb ub tol max_iters) = Inr (Some c)"
  then show "\<bar>G td c q ncomp nx L - target\<bar> \<le> tol"
    by (rule bin_search_sigma_Some)
next
  let ?s0 = "\<lparr>lbound = lb, ubound = ub, cur = None, eps = None\<rparr>"
  let ?acc = "\<lambda>c. G td c q ncomp nx L"
  assume H: "\<forall>k<nat max_iters. \<not> \<bar>G td (spec_candidate ?acc target (lb, ub) k) q ncomp nx L - target\<bar> \<le> tol"
  then have "\<forall>k<length [0..<nat max_iters].
     \<not> \<bar>G td (spec_candidate ?acc target (lbound ?s0, ubound ?s0) k) q ncomp nx L - target\<bar> \<le> tol"
    by simp
  from bss_loop_exhaust [where G=G and td=td and q=q and ncomp=ncomp and nx=nx and L=L
      and target=target and tol=tol and js="[0..<nat max_iters]" and s="?s0", OF this]
  obtain l s' where
    run: "bss_loop G target ncomp td q nx L tol [0..<nat max_iters] ?s0 = (l, Continue s')"
    and e: "[0..<nat max_iters] = [] \<longrightarrow> s' = ?s0"
    and ne: "[0..<nat max_iters] \<noteq> [] \<longrightarrow>
        cur s' = Some (spec_candidate ?acc target (lb, ub) (nat max_iters - 1))
      \<and> eps s' = Some (G td (spec_candidate ?acc target (lb, ub) (nat max_iters - 1)) q ncomp nx L)"
    by auto
  {
    fix c
    show "snd (bin_search_sigma G target ncomp td q nx L lb ub tol max_iters) \<noteq> Inr (Some c)"
      by (simp add: bin_search_sigma_def run split: option.splits)
  }
  {
    assume "0 < max_iters"
    then have "[0..<nat max_iters] \<noteq> []" by simp
    with ne have "cur s' = Some (spec_candidate ?acc target (lb, ub) (nat max_iters - 1))"
      and "eps s' = Some (G td (spec_candidate ?acc target (lb, ub) (nat max_iters - 1)) q ncomp nx L)"
      by blast+
    then show "\<exists>l. bin_search_sigma G target ncomp td q nx L lb ub tol max_iters =
             (l @ [Info_did_not_converge
                     (spec_candidate ?acc target (lb, ub) (nat max_iters - 1))
                     (G td (spec_candidate ?acc target (lb, ub) (nat max_iters - 1)) q ncomp nx L)],
              Inr None)"
      by (simp add: bin_search_sigma_def run)
  }
  {
    assume "max_iters \<le> 0"
    then have z: "[0..<nat max_iters] = []" by simp
    with e have "s' = ?s0" by blast
    moreover from run z have "l = []" by simp
    ultimately show "bin_search_sigma G target ncomp td q nx L lb ub tol max_iters =
            ([], Inl (UnboundLocalError ''cur''))"
      using run by (simp add: bin_search_sigma_def)
  }
qed

text \<open>An instance: the accountant \<open>eps(sigma) = 1 / sigma\<close>, target 1, bracket \<open>[3, 5]\<close>,
  tolerance \<open>1/10\<close> and two iterations.\<close>

theorem bin_search_sigma_no_convergence_witness:
  "\<not> \<bar>1 / spec_candidate (\<lambda>c. 1 / c) 1 (3, 5) 0 - 1\<bar> \<le> 1 / 10
   \<and> \<not> \<bar>1 / spec_candidate (\<lambda>c. 1 / c) 1 (3, 5) 1 - 1\<bar> \<le> 1 / 10
   \<and> bin_search_sigma (\<lambda>td s q nc nx L. 1 / s) 1 1 0 0 1 0 3 5 (1 / 10) 2
      = ([Debug_iter 0 4 (1/4) 5 3, Debug_iter 1 (7/2) (2/7) 4 3, Info_did_not_converge (7/2) (2/7)], Inr None)"
proof -
  have c0: "\<not> \<bar>1 / spec_candidate (\<lambda>c. 1 / c) 1 (3, 5) 0 - 1\<bar> \<le> 1 / 10"
    by (simp add: spec_candidate_def spec_midpoint_def)
  have c1: "\<not> \<bar>1 / spec_candidate (\<lambda>c. 1 / c) 1 (3, 5) 1 - 1\<bar> \<le> 1 / 10"
    by (simp add: spec_candidate_def spec_midpoint_def spec_narrow_def)
  have h: "\<forall>k<nat 2. \<not> \<bar>(\<lambda>td s q nc nx L. 1 / s) 0 (spec_candidate (\<lambda>c. (\<lambda>td s q nc nx L. 1 / s) 0 c 0 1 1 0) 1 (3, 5) k) (0::real) (1::int) (1::int) (0::real) - 1\<bar> \<le> 1 / (10::real)"
  proof (intro allI impI)
    fix k :: nat assume "k < nat 2"
    then have "k = 0 \<or> k = 1" by auto
    with c0 c1 show "\<not> \<bar>(\<lambda>td s q nc nx L. 1 / s) 0 (spec_candidate (\<lambda>c. (\<lambda>td s q nc nx L. 1 / s) 0 c 0 1 1 0) 1 (3, 5) k) (0::real) (1::int) (1::int) (0::real) - 1\<bar> \<le> 1 / (10::real)"
      by auto
  qed
  from bin_search_sigma_no_convergence [where G="\<lambda>td s q nc nx L. 1 / s" and td=0 and q=0 and ncomp=1 and nx=1 and L=0
      and target=1 and lb=3 and ub=5 and tol="1/10" and max_iters=2] h
  have "\<exists>l. bin_search_sigma (\<lambda>td s q nc nx L. 1 / s) 1 1 0 0 1 0 3 5 (1 / 10) 2
      = (l @ [Info_did_not_converge
                     (spec_candidate (\<lambda>c. 1 / c) 1 (3, 5) (nat 2 - 1))
                     (1 /(spec_candidate (\<lambda>c. 1 / c) 1 (3, 5) (nat 2 - 1)))], Inr None)"
    by simp
  moreover have "bin_search_sigma (\<lambda>td s q nc nx L. 1 / s) 1 1 0 0 1 0 3 5 (1 / 10) 2
      = ([Debug_iter 0 4 (1/4) 5 3, Debug_iter 1 (7/2) (2/7) 4 3, Info_did_not_converge (7/2) (2/7)], Inr None)"
    by (simp add: bin_search_sigma_def bss_body_def Let_def upt_rec)
  ultimately show ?thesis using c0 c1 by blast
qed

text \<open>
  Claim C3. In every iteration of the loop, whatever the bracket \<open>s\<close> it starts from and
  whatever iterations \<open>rest\<close> remain: the candidate is the midpoint of the bracket and
  \<open>eps\<close> is the accountant at the candidate; inside the tolerance the function returns
  the candidate at once; otherwise the loop goes on with the upper bound moved to the
  candidate when \<open>eps < target_eps\<close>, and with the lower bound moved to the candidate
  when \<open>eps \<ge> target_eps\<close>, the other bound unchanged.
\<close>

theorem bin_search_sigma_iteration:
  "let c = (lbound s + ubound s) / 2;
       e = G td c q ncomp nx L;
       run = bss_loop G target ncomp td q nx L tol (i # rest) s
   in (\<bar>e - target\<bar> \<le> tol \<longrightarrow>
         run = ([Debug_iter i c e (ubound s) (lbound s), Debug_found e c], Returned c))
    \<and> (\<not> \<bar>e - target\<bar> \<le> tol \<and> e < target \<longrightarrow>
         (\<exists>s'. lbound s' = lbound s \<and> ubound s' = c \<and> cur s' = Some c \<and> eps s' = Some e
            \<and> run = (Debug_iter i c e (ubound s) (lbound s)
                       # fst (bss_loop G target ncomp td q nx L tol rest s'),
                     snd (bss_loop G target ncomp td q nx L tol rest s'))))
    \<and> (\<not> \<bar>e - target\<bar> \<le> tol \<and> target \<le> e \<longrightarrow>
         (\<exists>s'. lbound s' = c \<and> ubound s' = ubound s \<and> cur s' = Some c \<and> eps s' = Some e
            \<and> run = (Debug_iter i c e (ubound s) (lbound s)
                       # fst (bss_loop G target ncomp td q nx L tol rest s'),
                     snd (bss_loop G target ncomp td q nx L tol rest s'))))"
proof -
  define c where "c = (lbound s + ubound s) / 2"
  define e where "e = G td c q ncomp nx L"
  have c': "(ubound s + lbound s) / 2 = c" by (simp add: c_def add.commute)
  have hit: "\<bar>e - target\<bar> \<le> tol \<Longrightarrow>
      bss_loop G target ncomp td q nx L tol (i # rest) s
        = ([Debug_iter i c e (ubound s) (lbound s), Debug_found e c], Returned c)"
    by (simp add: bss_body_def Let_def c' e_def [symmetric])
  have up: "\<exists>s'. lbound s' = lbound s \<and> ubound s' = c \<and> cur s' = Some c \<and> eps s' = Some e
            \<and> bss_loop G target ncomp td q nx L tol (i # rest) s
              = (Debug_iter i c e (ubound s) (lbound s)
                       # fst (bss_loop G target ncomp td q nx L tol rest s'),
                     snd (bss_loop G target ncomp td q nx L tol rest s'))"
    if "\<not> \<bar>e - target\<bar> \<le> tol" "e < target"
  proof -
    let ?s' = "s\<lparr>cur := Some c, eps := Some e, ubound := c\<rparr>"
    have "bss_body G target ncomp td q nx L tol i s
            = ([Debug_iter i c e (ubound s) (lbound s)], Continue ?s')"
      using that by (simp add: bss_body_def Let_def c' e_def [symmetric])
    then have "bss_loop G target ncomp td q nx L tol (i # rest) s
              = (Debug_iter i c e (ubound s) (lbound s)
                       # fst (bss_loop G target ncomp td q nx L tol rest ?s'),
                     snd (bss_loop G target ncomp td q nx L tol rest ?s'))"
      by (simp add: case_prod_beta)
    then show ?thesis
      by (intro exI [of _ ?s']) simp
  qed
  have low: "\<exists>s'. lbound s' = c \<and> ubound s' = ubound s \<and> cur s' = Some c \<and> eps s' = Some e
            \<and> bss_loop G target ncomp td q nx L tol (i # rest) s
              = (Debug_iter i c e (ubound s) (lbound s)
                       # fst (bss_loop G target ncomp td q nx L tol rest s'),
                     snd (bss_loop G target ncomp td q nx L tol rest s'))"
    if "\<not> \<bar>e - target\<bar> \<le> tol" "target \<le> e"
  proof -
    let ?s' = "s\<lparr>cur := Some c, eps := Some e, lbound := c\<rparr>"
    have "bss_body G target ncomp td q nx L tol i s
            = ([Debug_iter i c e (ubound s) (lbound s)], Continue ?s')"
      using that by (simp add: bss_body_def Let_def c' e_def [symmetric])
    then have "bss_loop G target ncomp td q nx L tol (i # rest) s
              = (Debug_iter i c e (ubound s) (lbound s)
                       # fst (bss_loop G target ncomp td q nx L tol rest ?s'),
                     snd (bss_loop G target ncomp td q nx L tol rest ?s'))"
      by (simp add: case_prod_beta)
    then show ?thesis
      by (intro exI [of _ ?s']) simp
  qed
  from hit up low show ?thesis
    unfolding Let_def c_def [symmetric] e_def [symmetric] by blast
qed

text \<open>The run as a whole: the first candidate inside the tolerance is what the call returns.\<close>

lemma bss_loop_first_hit:
  assumes "k < length js"
    and "\<forall>j<k. \<not> \<bar>G td (spec_candidate (\<lambda>c. G td c q ncomp nx L) target (lbound s, ubound s) j) q ncomp nx L - target\<bar> \<le> tol"
    and "\<bar>G td (spec_candidate (\<lambda>c. G td c q ncomp nx L) target (lbound s, ubound s) k) q ncomp nx L - target\<bar> \<le> tol"
  shows "snd (bss_loop G target ncomp td q nx L tol js s)
           = Returned (spec_candidate (\<lambda>c. G td c q ncomp nx L) target (lbound s, ubound s) k)"
  using assms
proof (induction js arbitrary: s k)
  case Nil
  then show ?case by simp
next
  case (Cons i rest)
  let ?acc = "\<lambda>c. G td c q ncomp nx L"
  show ?case
  proof (cases k)
    case 0
    with Cons.prems(3) have "\<bar>G td ((ubound s + lbound s) / 2) q ncomp nx L - target\<bar> \<le> tol"
      by (simp add: spec_candidate_0)
    then show ?thesis
      using 0 by (simp add: bss_body_def Let_def spec_candidate_0)
  next
    case (Suc m)
    with Cons.prems(2) have "\<not> \<bar>?acc (spec_candidate ?acc target (lbound s, ubound s) 0) - target\<bar> \<le> tol"
      by blast
    then have f0: "\<not> \<bar>G td ((ubound s + lbound s) / 2) q ncomp nx L - target\<bar> \<le> tol"
      by (simp add: spec_candidate_0)
    from bss_body_fail [where G=G and td=td and s=s and q=q and ncomp=ncomp and nx=nx and L=L
        and target=target and tol=tol and i=i, OF f0]
    obtain l s1 where
      b: "bss_body G target ncomp td q nx L tol i s = (l, Continue s1)"
      and n: "(lbound s1, ubound s1) = spec_narrow ?acc target (lbound s, ubound s)"
      by blast
    have m: "m < length rest" using Cons.prems(1) Suc by simp
    have fails: "\<forall>j<m. \<not> \<bar>?acc (spec_candidate ?acc target (lbound s1, ubound s1) j) - target\<bar> \<le> tol"
    proof (intro allI impI)
      fix j assume "j < m"
      then have "Suc j < k" using Suc by simp
      with Cons.prems(2) have "\<not> \<bar>?acc (spec_candidate ?acc target (lbound s, ubound s) (Suc j)) - target\<bar> \<le> tol"
        by blast
      then show "\<not> \<bar>?acc (spec_candidate ?acc target (lbound s1, ubound s1) j) - target\<bar> \<le> tol"
        by (simp add: spec_candidate_Suc n)
    qed
    have hit: "\<bar>?acc (spec_candidate ?acc target (lbound s1, ubound s1) m) - target\<bar> \<le> tol"
      using Cons.prems(3) Suc by (simp add: spec_candidate_Suc n)
    from Cons.IH [OF m fails hit]
    have "snd (bss_loop G target ncomp td q nx L tol rest s1)
           = Returned (spec_candidate ?acc target (lbound s1, ubound s1) m)" .
    then show ?thesis
      using b Suc n by (simp add: case_prod_beta spec_candidate_Suc)
  qed
qed

lemma bin_search_sigma_first_hit:
  assumes "k < nat max_iters"
    and "\<forall>j<k. \<not> \<bar>G td (spec_candidate (\<lambda>c. G td c q ncomp nx L) target (lb, ub) j) q ncomp nx L - target\<bar> \<le> tol"
    and "\<bar>G td (spec_candidate (\<lambda>c. G td c q ncomp nx L) target (lb, ub) k) q ncomp nx L - target\<bar> \<le> tol"
  shows "snd (bin_search_sigma G target ncomp td q nx L lb ub tol max_iters)
           = Inr (Some (spec_candidate (\<lambda>c. G td c q ncomp nx L) target (lb, ub) k))"
proof -
  let ?s0 = "\<lparr>lbound = lb, ubound = ub, cur = None, eps = None\<rparr>"
  have "snd (bss_loop G target ncomp td q nx L tol [0..<nat max_iters] ?s0)
           = Returned (spec_candidate (\<lambda>c. G td c q ncomp nx L) target (lbound ?s0, ubound ?s0) k)"
    by (rule bss_loop_first_hit) (use assms in simp_all)
  then show ?thesis
    by (simp add: bin_search_sigma_def case_prod_beta)
qed

theorem bin_search_sigma_iteration_witness:
  "\<bar>1 / 4 - (1::real)\<bar> > 1 / 10 \<and> (1 / 4 < (1::real))
   \<and> bss_loop (\<lambda>td s q nc nx L. 1 / s) 1 1 0 0 1 0 (1 / 10) [0]
       \<lparr>lbound = 3, ubound = 5, cur = None, eps = None\<rparr>
     = ([Debug_iter 0 4 (1 / 4) 5 3],
        Continue \<lparr>lbound = 3, ubound = 4, cur = Some 4, eps = Some (1 / 4)\<rparr>)
   \<and> \<bar>1 / 1 - (1::real)\<bar> \<le> 1 / 10
   \<and> bss_loop (\<lambda>td s q nc nx L. 1 / s) 1 1 0 0 1 0 (1 / 10) [0]
       \<lparr>lbound = 0, ubound = 2, cur = None, eps = None\<rparr>
     = ([Debug_iter 0 1 1 2 0, Debug_found 1 1], Returned 1)"
proof -
  let ?G = "\<lambda>(td::real) (s::real) (q::real) (nc::int) (nx::int) (L::real). 1 / s"
  have a: "\<bar>1 / 4 - (1::real)\<bar> > 1 / 10 \<and> (1 / 4 < (1::real))" by simp
  have b: "\<bar>1 / 1 - (1::real)\<bar> \<le> 1 / 10" by simp
  from bin_search_sigma_iteration [where G="?G" and td=0 and q=0 and ncomp=1 and nx=1 and L=0
      and target=1 and tol="1/10" and i=0 and rest="[]"
      and s="\<lparr>lbound = 3, ubound = 5, cur = None, eps = None\<rparr>"]
  have 1: "bss_loop ?G 1 1 0 0 1 0 (1 / 10) [0]
       \<lparr>lbound = 3, ubound = 5, cur = None, eps = None\<rparr>
     = ([Debug_iter 0 4 (1 / 4) 5 3],
        Continue \<lparr>lbound = 3, ubound = 4, cur = Some 4, eps = Some (1 / 4)\<rparr>)"
    by (auto simp: Let_def)
  from bin_search_sigma_iteration [where G="?G" and td=0 and q=0 and ncomp=1 and nx=1 and L=0
      and target=1 and tol="1/10" and i=0 and rest="[]"
      and s="\<lparr>lbound = 0, ubound = 2, cur = None, eps = None\<rparr>"]
  have 2: "bss_loop ?G 1 1 0 0 1 0 (1 / 10) [0]
       \<lparr>lbound = 0, ubound = 2, cur = None, eps = None\<rparr>
     = ([Debug_iter 0 1 1 2 0, Debug_found 1 1], Returned 1)"
    by (simp add: Let_def)
  from a b 1 2 show ?thesis by blast
qed

section \<open>Properties of \<open>generate_clients_data\<close>\<close>












text \<open>
  Claim C8. With a seed given, the result (the shards, their sizes, the shares of
  positive labels, or the exception) is the same from any two states of the global
  generator.
\<close>

theorem generate_clients_data_seeded_deterministic:
  "fst (generate_clients_data R x y M client_size_factor class_balance_factor (Some sd) g)
   = fst (generate_clients_data R x y M client_size_factor class_balance_factor (Some sd) g')"
  by (simp add: generate_clients_data_def Let_def case_prod_beta split: option.splits sum.splits)

lemma generate_clients_data_state:
  "snd (generate_clients_data R x y M client_size_factor class_balance_factor (Some sd) g) = g
   \<or> snd (generate_clients_data R x y M client_size_factor class_balance_factor (Some sd) g) = np_seed R sd
      \<and> (M = 1 \<or> (\<exists>e. fst (generate_clients_data R x y M client_size_factor class_balance_factor (Some sd) g) = Inl e))"
  by (simp add: generate_clients_data_def Let_def case_prod_beta split: option.split sum.split)

lemma generate_clients_data_reseeds:
  "fst (generate_clients_data R x y M client_size_factor class_balance_factor (Some sd) g)
   = fst (generate_clients_data R x y M client_size_factor class_balance_factor None (np_seed R sd))"
  by (simp add: generate_clients_data_def Let_def case_prod_beta split: option.splits sum.splits)

text \<open>
  Claim C9. With a seed given, a call that returns through the path that shuffles
  (\<open>M \<noteq> 1\<close>, no exception) leaves the global generator in the state it found, and its
  shuffles are the ones drawn from the freshly seeded generator.
\<close>

theorem generate_clients_data_restores_state:
  assumes "M \<noteq> 1"
    and "fst (generate_clients_data R x y M client_size_factor class_balance_factor (Some sd) g) = Inr r"
  shows "snd (generate_clients_data R x y M client_size_factor class_balance_factor (Some sd) g) = g
    \<and> fst (generate_clients_data R x y M client_size_factor class_balance_factor None (np_seed R sd))
        = Inr r"
  using assms generate_clients_data_state [of R x y M client_size_factor class_balance_factor sd g]
    generate_clients_data_reseeds [of R x y M client_size_factor class_balance_factor sd g]
  by auto

lemma generate_clients_data_single:
  "generate_clients_data R x y 1 client_size_factor class_balance_factor dataset_seed g
   = (Inr ([\<lparr>data_x = x, data_y = y\<rparr>], [int (length x)], [np_mean_bool (map (\<lambda>v. v > 0) y)], 1),
      (case dataset_seed of None \<Rightarrow> g | Some sd \<Rightarrow> np_seed R sd))"
  by (simp add: generate_clients_data_def)

text \<open>
  Claim C5, as amended. An odd \<open>M\<close> other than 1 raises the error of the parity check
  and returns no shard; \<open>M = 1\<close> is taken before that check and returns the whole data
  set as the single shard.
\<close>

theorem generate_clients_data_odd:
  "(M = 1 \<longrightarrow>
      fst (generate_clients_data R x y M client_size_factor class_balance_factor dataset_seed g)
        = Inr ([\<lparr>data_x = x, data_y = y\<rparr>], [int (length x)], [np_mean_bool (map (\<lambda>v. v > 0) y)], 1))
   \<and> (M mod 2 \<noteq> 0 \<and> M \<noteq> 1 \<longrightarrow>
      fst (generate_clients_data R x y M client_size_factor class_balance_factor dataset_seed g)
        = Inl (ValueError ''Num clients should be even for nice maths''))"
  by (simp add: generate_clients_data_def)

theorem generate_clients_data_restores_state_witness:
  "(2::int) \<noteq> 1
   \<and> fst (generate_clients_data example_random [10, 11, 12, 13::nat] [1, 0, 1, 0] 2 0 0 (Some 7) 3)
       = Inr ([\<lparr>data_x = [11, 10], data_y = [0, 1]\<rparr>, \<lparr>data_x = [13, 12], data_y = [0, 1]\<rparr>],
              [2, 2], [Some (1 / 2), Some (1 / 2)], 2)
   \<and> snd (generate_clients_data example_random [10, 11, 12, 13::nat] [1, 0, 1, 0] 2 0 0 (Some 7) 3) = 3
   \<and> fst (generate_clients_data example_random [10, 11, 12, 13::nat] [1, 0, 1, 0] 2 0 0 None
            (np_seed example_random 7))
       = Inr ([\<lparr>data_x = [11, 10], data_y = [0, 1]\<rparr>, \<lparr>data_x = [13, 12], data_y = [0, 1]\<rparr>],
              [2, 2], [Some (1 / 2), Some (1 / 2)], 2)"
proof -
  have m: "(2::int) \<noteq> 1" by simp
  have r: "fst (generate_clients_data example_random [10, 11, 12, 13::nat] [1, 0, 1, 0] 2 0 0 (Some 7) 3)
       = Inr ([\<lparr>data_x = [11, 10], data_y = [0, 1]\<rparr>, \<lparr>data_x = [13, 12], data_y = [0, 1]\<rparr>],
              [2, 2], [Some (1 / 2), Some (1 / 2)], 2)"
    by code_simp
  from generate_clients_data_restores_state [OF m r] m r show ?thesis by blast
qed

text \<open>
  Claim C5 as stated fails at \<open>M = 1\<close>, which is odd: the call returns one shard.
\<close>

theorem generate_clients_data_odd_counterexample:
  "(1::int) mod 2 \<noteq> 0
   \<and> fst (generate_clients_data example_random [10, 11::nat] [1, 0] 1 0 0 None 0)
       = Inr ([\<lparr>data_x = [10, 11], data_y = [1, 0]\<rparr>], [2], [Some (1 / 2)], 1)"
  by code_simp

theorem generate_clients_data_odd_witness:
  "(3::int) mod 2 \<noteq> 0 \<and> (3::int) \<noteq> 1
   \<and> fst (generate_clients_data example_random [10, 11::nat] [1, 0] 3 0 0 None 0)
       = Inl (ValueError ''Num clients should be even for nice maths'')
   \<and> fst (generate_clients_data example_random [10, 11::nat] [1, 0] 1 0 0 None 0)
       = Inr ([\<lparr>data_x = [10, 11], data_y = [1, 0]\<rparr>], [2], [Some (1 / 2)], 1)"
  using generate_clients_data_odd [of 3 example_random "[10, 11::nat]" "[1, 0]" 0 0 None 0]
    generate_clients_data_odd [of 1 example_random "[10, 11::nat]" "[1, 0]" 0 0 None 0]
  by (simp add: np_mean_bool_def)

subsection \<open>The two loops\<close>










subsection \<open>A call that returns\<close>







section \<open>Properties of \<open>get_posneg\<close>\<close>

lemma count_masked:
  assumes "length pred = length ys"
  shows "length (filter (\<lambda>(b, v). Q b v)
            (zip (map fst (filter snd (zip (map f pred) (map g ys)))) (filter g ys)))
         = length (filter (\<lambda>(p, v). g v \<and> Q (f p) v) (zip pred ys))"
  using assms by (induction pred ys rule: list_induct2) auto

lemma count_labels:
  assumes "length pred = length ys"
  shows "length (filter (\<lambda>(p, v). g v) (zip pred ys)) = length (filter g ys)"
  using assms by (induction pred ys rule: list_induct2) auto

lemma count_split:
  "length (filter (\<lambda>(p, v). g v \<and> B p) l) + length (filter (\<lambda>(p, v). g v \<and> \<not> B p) l)
   = length (filter (\<lambda>(p, v). g v) l)"
  by (induction l) auto

lemma tp_count_eq:
  assumes "length pred = length ys"
  shows "tp_count ys pred thr
           = Inr (int (length (filter (\<lambda>(p, v). v = 1 \<and> thr < p) (zip pred ys))))"
proof -
  have "(\<lambda>(p, v). v = 1 \<and> np_eq_bool (thr < p) v) = (\<lambda>(p, v). v = 1 \<and> thr < p)"
    by (auto simp: np_eq_bool_def fun_eq_iff)
  then show ?thesis
    using assms count_masked [OF assms, of np_eq_bool "\<lambda>p. thr < p" "\<lambda>v. v = 1"]
    by (simp add: tp_count_def np_mask_def)
qed

lemma fn_count_eq:
  assumes "length pred = length ys"
  shows "fn_count ys pred thr
           = Inr (int (length (filter (\<lambda>(p, v). v = 1 \<and> \<not> thr < p) (zip pred ys))))"
proof -
  have "(\<lambda>(p, v). v = 1 \<and> \<not> np_eq_bool (p \<le> thr) (1 - v)) = (\<lambda>(p, v). v = 1 \<and> \<not> thr < p)"
    by (auto simp: np_eq_bool_def fun_eq_iff)
  then show ?thesis
    using assms count_masked [OF assms, of "\<lambda>b v. \<not> np_eq_bool b (1 - v)" "\<lambda>p. p \<le> thr" "\<lambda>v. v = 1"]
    by (simp add: fn_count_def np_mask_def)
qed

lemma fp_count_eq:
  assumes "length pred = length ys"
  shows "fp_count ys pred thr
           = Inr (int (length (filter (\<lambda>(p, v). v = 0 \<and> thr < p) (zip pred ys))))"
proof -
  have "(\<lambda>(p, v). v = 0 \<and> \<not> np_eq_bool (thr < p) v) = (\<lambda>(p, v). v = 0 \<and> thr < p)"
    by (auto simp: np_eq_bool_def fun_eq_iff)
  then show ?thesis
    using assms count_masked [OF assms, of "\<lambda>b v. \<not> np_eq_bool b v" "\<lambda>p. thr < p" "\<lambda>v. v = 0"]
    by (simp add: fp_count_def np_mask_def)
qed

lemma tn_count_eq:
  assumes "length pred = length ys"
  shows "tn_count ys pred thr
           = Inr (int (length (filter (\<lambda>(p, v). v = 0 \<and> \<not> thr < p) (zip pred ys))))"
proof -
  have "(\<lambda>(p, v). v = 0 \<and> np_eq_bool (p \<le> thr) (1 - v)) = (\<lambda>(p, v). v = 0 \<and> \<not> thr < p)"
    by (auto simp: np_eq_bool_def fun_eq_iff)
  then show ?thesis
    using assms count_masked [OF assms, of "\<lambda>b v. np_eq_bool b (1 - v)" "\<lambda>p. p \<le> thr" "\<lambda>v. v = 0"]
    by (simp add: tn_count_def np_mask_def)
qed

lemma counts_sum:
  assumes "length pred = length ys"
  shows "\<exists>tp fp tn fn. tp_count ys pred thr = Inr tp \<and> fp_count ys pred thr = Inr fp
           \<and> tn_count ys pred thr = Inr tn \<and> fn_count ys pred thr = Inr fn
           \<and> tp + fn = int (length (filter (\<lambda>v. v = 1) ys))
           \<and> fp + tn = int (length (filter (\<lambda>v. v = 0) ys))"
proof -
  let ?tp = "length (filter (\<lambda>(p, v). v = 1 \<and> thr < p) (zip pred ys))"
  let ?fn = "length (filter (\<lambda>(p, v). v = 1 \<and> \<not> thr < p) (zip pred ys))"
  let ?fp = "length (filter (\<lambda>(p, v). v = 0 \<and> thr < p) (zip pred ys))"
  let ?tn = "length (filter (\<lambda>(p, v). v = 0 \<and> \<not> thr < p) (zip pred ys))"
  have "?tp + ?fn = length (filter (\<lambda>v. v = 1) ys)"
    using count_split [of "\<lambda>v. v = 1" "\<lambda>p. thr < p" "zip pred ys"]
      count_labels [OF assms, of "\<lambda>v. v = 1"] by simp
  then have s1: "int ?tp + int ?fn = int (length (filter (\<lambda>v. v = 1) ys))"
    by linarith
  have "?fp + ?tn = length (filter (\<lambda>v. v = 0) ys)"
    using count_split [of "\<lambda>v. v = 0" "\<lambda>p. thr < p" "zip pred ys"]
      count_labels [OF assms, of "\<lambda>v. v = 0"] by simp
  then have s0: "int ?fp + int ?tn = int (length (filter (\<lambda>v. v = 0) ys))"
    by linarith
  show ?thesis
  proof (intro exI conjI)
    show "tp_count ys pred thr = Inr (int ?tp)" by (rule tp_count_eq [OF assms])
    show "fp_count ys pred thr = Inr (int ?fp)" by (rule fp_count_eq [OF assms])
    show "tn_count ys pred thr = Inr (int ?tn)" by (rule tn_count_eq [OF assms])
    show "fn_count ys pred thr = Inr (int ?fn)" by (rule fn_count_eq [OF assms])
    show "int ?tp + int ?fn = int (length (filter (\<lambda>v. v = 1) ys))" by (rule s1)
    show "int ?fp + int ?tn = int (length (filter (\<lambda>v. v = 0) ys))" by (rule s0)
  qed
qed

lemma posneg_loop_inv:
  assumes len: "length pred = length ys"
  shows "k + length ths \<le> n \<Longrightarrow>
     length (TP r) = n \<Longrightarrow> length (FP r) = n \<Longrightarrow> length (TN r) = n \<Longrightarrow> length (FN r) = n \<Longrightarrow>
     (\<forall>i<k. TP r ! i + FN r ! i = int (length (filter (\<lambda>v. v = 1) ys))
          \<and> FP r ! i + TN r ! i = int (length (filter (\<lambda>v. v = 0) ys))) \<Longrightarrow>
     \<exists>r'. posneg_loop ys pred (enumerate k ths) r = Inr r'
        \<and> length (TP r') = n \<and> length (FP r') = n \<and> length (TN r') = n \<and> length (FN r') = n
        \<and> n_points r' = n_points r
        \<and> (\<forall>i<k + length ths.
              TP r' ! i + FN r' ! i = int (length (filter (\<lambda>v. v = 1) ys))
            \<and> FP r' ! i + TN r' ! i = int (length (filter (\<lambda>v. v = 0) ys)))"
proof (induction ths arbitrary: k r)
  case Nil
  then show ?case by simp
next
  case (Cons thr ths)
  from counts_sum [OF len, of thr] obtain tp fp tn fn where
    c: "tp_count ys pred thr = Inr tp" "fp_count ys pred thr = Inr fp"
       "tn_count ys pred thr = Inr tn" "fn_count ys pred thr = Inr fn"
    and s1: "tp + fn = int (length (filter (\<lambda>v. v = 1) ys))"
    and s0: "fp + tn = int (length (filter (\<lambda>v. v = 0) ys))"
    by blast
  define r1 where "r1 = r\<lparr>TP := (TP r)[k := tp], FP := (FP r)[k := fp],
                         TN := (TN r)[k := tn], FN := (FN r)[k := fn]\<rparr>"
  have step: "posneg_loop ys pred (enumerate k (thr # ths)) r
                = posneg_loop ys pred (enumerate (Suc k) ths) r1"
    by (simp add: c r1_def)
  have kn: "k < n" using Cons.prems(1) by simp
  have l1: "length (TP r1) = n" "length (FP r1) = n" "length (TN r1) = n" "length (FN r1) = n"
    using Cons.prems(2-5) by (simp_all add: r1_def)
  have old: "\<forall>i<Suc k. TP r1 ! i + FN r1 ! i = int (length (filter (\<lambda>v. v = 1) ys))
          \<and> FP r1 ! i + TN r1 ! i = int (length (filter (\<lambda>v. v = 0) ys))"
  proof (intro allI impI)
    fix i assume "i < Suc k"
    then consider "i < k" | "i = k" by linarith
    then show "TP r1 ! i + FN r1 ! i = int (length (filter (\<lambda>v. v = 1) ys))
          \<and> FP r1 ! i + TN r1 ! i = int (length (filter (\<lambda>v. v = 0) ys))"
    proof cases
      case 1
      then have "i \<noteq> k" by simp
      then show ?thesis using Cons.prems(6) 1 by (simp add: r1_def)
    next
      case 2
      then show ?thesis using kn Cons.prems(2-5) s1 s0 by (simp add: r1_def)
    qed
  qed
  have "Suc k + length ths \<le> n" using Cons.prems(1) by simp
  from Cons.IH [OF this l1 old] obtain r' where
    "posneg_loop ys pred (enumerate (Suc k) ths) r1 = Inr r'"
    "length (TP r') = n" "length (FP r') = n" "length (TN r') = n" "length (FN r') = n"
    "n_points r' = n_points r1"
    "\<forall>i<Suc k + length ths.
              TP r' ! i + FN r' ! i = int (length (filter (\<lambda>v. v = 1) ys))
            \<and> FP r' ! i + TN r' ! i = int (length (filter (\<lambda>v. v = 0) ys))"
    by blast
  moreover have "n_points r1 = n_points r" by (simp add: r1_def)
  ultimately show ?case unfolding step by simp
qed

text \<open>
  Claim C10. For labels that take exactly the values 0 and 1, one prediction for each
  label and \<open>n_points > 1\<close>, the call returns, its four arrays have \<open>n_points\<close> entries,
  and at every threshold index \<open>TP + FN\<close> is the number of labels equal to 1 and
  \<open>FP + TN\<close> the number of labels equal to 0.
\<close>

theorem get_posneg_totals:
  assumes bin: "set y = {0, 1}" and len: "length pred_probs = length y" and n: "1 < npoints"
  shows "\<exists>r. get_posneg SK y pred_probs npoints = Inr r
     \<and> length (TP r) = nat npoints \<and> length (FP r) = nat npoints
     \<and> length (TN r) = nat npoints \<and> length (FN r) = nat npoints
     \<and> (\<forall>i<nat npoints.
           TP r ! i + FN r ! i = int (length (filter (\<lambda>v. v = 1) y))
         \<and> FP r ! i + TN r ! i = int (length (filter (\<lambda>v. v = 0) y)))"
proof -
  let ?n = "nat npoints"
  let ?r0 = "\<lparr>TP = replicate ?n 0, FP = replicate ?n 0, TN = replicate ?n 0,
              FN = replicate ?n 0, n_points = npoints\<rparr>"
  have two: "card (set y) = 2" unfolding bin by simp
  have lin: "length (np_linspace01 ?n) = ?n" by (simp add: np_linspace01_def)
  have "\<exists>r'. posneg_loop y pred_probs (enumerate 0 (np_linspace01 ?n)) ?r0 = Inr r'
        \<and> length (TP r') = ?n \<and> length (FP r') = ?n \<and> length (TN r') = ?n \<and> length (FN r') = ?n
        \<and> n_points r' = n_points ?r0
        \<and> (\<forall>i<0 + length (np_linspace01 ?n).
              TP r' ! i + FN r' ! i = int (length (filter (\<lambda>v. v = 1) y))
            \<and> FP r' ! i + TN r' ! i = int (length (filter (\<lambda>v. v = 0) y)))"
    by (rule posneg_loop_inv [OF len]) (simp_all add: lin)
  then obtain r' where
    loop: "posneg_loop y pred_probs (enumerate 0 (np_linspace01 ?n)) ?r0 = Inr r'"
    and l: "length (TP r') = ?n" "length (FP r') = ?n" "length (TN r') = ?n" "length (FN r') = ?n"
    and s: "\<forall>i<?n. TP r' ! i + FN r' ! i = int (length (filter (\<lambda>v. v = 1) y))
            \<and> FP r' ! i + TN r' ! i = int (length (filter (\<lambda>v. v = 0) y))"
    unfolding lin by auto
  have "\<exists>a b c. get_posneg SK y pred_probs npoints
          = Inr \<lparr>TP = TP r', FP = FP r', TN = TN r', FN = FN r', n_points = n_points r',
                 avg_prec_score = a, balanced_acc = b, f1_score = c\<rparr>"
    using n two len loop by (simp add: get_posneg_def)
  then obtain a b c where res: "get_posneg SK y pred_probs npoints
          = Inr \<lparr>TP = TP r', FP = FP r', TN = TN r', FN = FN r', n_points = n_points r',
                 avg_prec_score = a, balanced_acc = b, f1_score = c\<rparr>"
    by blast
  let ?r = "\<lparr>TP = TP r', FP = FP r', TN = TN r', FN = FN r', n_points = n_points r',
                 avg_prec_score = a, balanced_acc = b, f1_score = c\<rparr>"
  have "length (TP ?r) = ?n" "length (FP ?r) = ?n" "length (TN ?r) = ?n" "length (FN ?r) = ?n"
    using l by simp_all
  moreover have "\<forall>i<?n. TP ?r ! i + FN ?r ! i = int (length (filter (\<lambda>v. v = 1) y))
            \<and> FP ?r ! i + TN ?r ! i = int (length (filter (\<lambda>v. v = 0) y))"
    using s by simp
  ultimately show ?thesis using res by blast
qed

theorem get_posneg_totals_witness:
  "set [1, 0, 1, 0, 1::real] = {0, 1}
   \<and> length [9 / 10, 2 / 10, 4 / 10, 6 / 10, 1::real] = length [1, 0, 1, 0, 1::real]
   \<and> (1::int) < 3
   \<and> get_posneg example_metrics [1, 0, 1, 0, 1] [9 / 10, 2 / 10, 4 / 10, 6 / 10, 1] 3
       = Inr \<lparr>TP = [3, 2, 0], FP = [2, 1, 0], TN = [0, 1, 2], FN = [0, 1, 3], n_points = 3,
              avg_prec_score = 0, balanced_acc = 0, f1_score = 0\<rparr>"
proof -
  have b: "set [1, 0, 1, 0, 1::real] = {0, 1}" by auto
  have l: "length [9 / 10, 2 / 10, 4 / 10, 6 / 10, 1::real] = length [1, 0, 1, 0, 1::real]" by simp
  have n: "(1::int) < 3" by simp
  from get_posneg_totals [OF b l n, of example_metrics]
  have "\<exists>r. get_posneg example_metrics [1, 0, 1, 0, 1] [9 / 10, 2 / 10, 4 / 10, 6 / 10, 1] 3 = Inr r"
    by blast
  moreover have "get_posneg example_metrics [1, 0, 1, 0, 1] [9 / 10, 2 / 10, 4 / 10, 6 / 10, 1] 3
       = Inr \<lparr>TP = [3, 2, 0], FP = [2, 1, 0], TN = [0, 1, 2], FN = [0, 1, 3], n_points = 3,
              avg_prec_score = 0, balanced_acc = 0, f1_score = 0\<rparr>"
    by code_simp
  ultimately show ?thesis using b l n by blast
qed

section \<open>Properties of the setup path\<close>

text \<open>
  Claim C1 asks for a configuration error whenever both or neither of \<open>batch_size\<close> and
  \<open>sampling_frac_q\<close> are set in a mode with differential privacy. For \<open>param\<close> (and for
  \<open>lfa\<close> and \<open>local_pvi\<close>, below) with neither set, the checks of \<open>main\<close> pass and
  \<open>set_up_clients\<close> creates the clients: the branch only tests for both being set,
  although its own message asks for exactly one.
\<close>

theorem main_setup_neither_set:
  "main_setup \<lparr>args_dp_mode = ''param'', args_model = ''pvi'', args_batch_size = None,
               args_sampling_frac_q = None\<rparr> [shard]
   = Inr [Param_DP_Client shard]"
  by (simp add: main_setup_def main_checks_def set_up_clients_def)

text \<open>
  Claim C6 has \<open>main\<close> accept the seven modes it names, \<open>param_fixed\<close> among them. The
  checks of \<open>main\<close> let \<open>param_fixed\<close> through, but \<open>set_up_clients\<close> has no branch for
  it and raises the error of an unknown mode for the first client.
\<close>

theorem main_setup_param_fixed:
  "main_setup \<lparr>args_dp_mode = ''param_fixed'', args_model = ''pvi'', args_batch_size = Some 32,
               args_sampling_frac_q = None\<rparr> [shard]
   = Inl (ValueError ''Unknown dp_mode: param_fixed!'')"
  by (simp add: main_setup_def main_checks_def set_up_clients_def)

lemma main_setup_neither_lfa:
  "main_setup \<lparr>args_dp_mode = ''lfa'', args_model = ''pvi'', args_batch_size = None,
               args_sampling_frac_q = None\<rparr> [shard]
   = Inr [LFA_Client shard]"
  by (simp add: main_setup_def main_checks_def set_up_clients_def)

lemma main_setup_neither_local_pvi:
  "main_setup \<lparr>args_dp_mode = ''local_pvi'', args_model = ''pvi'', args_batch_size = None,
               args_sampling_frac_q = None\<rparr> [shard]
   = Inr [Local_PVI_Client shard]"
  by (simp add: main_setup_def main_checks_def set_up_clients_def)

text \<open>The cases of claim C1 that the code does satisfy: \<open>dpsgd\<close> in full, and the other
  modes when both options are set.\<close>

lemma main_setup_dpsgd:
  assumes "args_dp_mode a = ''dpsgd''"
    and "args_model a \<in> set [''pvi'', ''bcm_split'', ''bcm_same'', ''global_vi'']"
  shows "args_batch_size a = None \<Longrightarrow> args_sampling_frac_q a = None \<Longrightarrow>
           main_setup a client_data
             = Inl (ValueError ''Need to set at least one of batch_size, sampling_frac_q!'')"
    and "args_batch_size a \<noteq> None \<Longrightarrow> args_sampling_frac_q a \<noteq> None \<Longrightarrow> client_data \<noteq> [] \<Longrightarrow>
           main_setup a client_data = Inl (NotImplementedError ''user level DP not implemented!'')"
    and "(args_batch_size a = None) \<noteq> (args_sampling_frac_q a = None) \<Longrightarrow>
           main_setup a client_data = Inr (map DPSGD_Client client_data)"
proof -
  have loop: "\<not> (bs \<noteq> None \<and> q \<noteq> None) \<Longrightarrow>
      set_up_clients_loop cd ''dpsgd'' bs q cs = Inr (cs @ map DPSGD_Client cd)"
    for cd :: "'a list" and bs q cs
    by (induction cd arbitrary: cs) auto
  show "args_batch_size a = None \<Longrightarrow> args_sampling_frac_q a = None \<Longrightarrow>
           main_setup a client_data
             = Inl (ValueError ''Need to set at least one of batch_size, sampling_frac_q!'')"
    using assms by (simp add: main_setup_def main_checks_def)
  show "args_batch_size a \<noteq> None \<Longrightarrow> args_sampling_frac_q a \<noteq> None \<Longrightarrow> client_data \<noteq> [] \<Longrightarrow>
           main_setup a client_data = Inl (NotImplementedError ''user level DP not implemented!'')"
    using assms by (cases client_data) (auto simp: main_setup_def main_checks_def set_up_clients_def)
  show "(args_batch_size a = None) \<noteq> (args_sampling_frac_q a = None) \<Longrightarrow>
           main_setup a client_data = Inr (map DPSGD_Client client_data)"
    using assms loop [of "args_batch_size a" "args_sampling_frac_q a" client_data "[]"]
    by (auto simp: main_setup_def main_checks_def set_up_clients_def)
qed

lemma main_setup_both_set:
  assumes "args_dp_mode a \<in> set [''lfa'', ''local_pvi'', ''param'']"
    and "args_model a \<in> set [''pvi'', ''bcm_split'', ''bcm_same'', ''global_vi'']"
    and "args_batch_size a \<noteq> None" "args_sampling_frac_q a \<noteq> None"
  shows "main_setup a client_data
           = Inl (ValueError ''Exactly one of batch_size, sampling_frac_q needs to be None'')"
  using assms by (auto simp: main_setup_def main_checks_def)

text \<open>The part of claim C6 that the code does satisfy: a mode outside the seven never
  gets past the checks of \<open>main\<close> (\<open>server\<close>, which the first test lets through, is
  refused by the last), and none of the seven is refused there as unknown.\<close>

lemma main_checks_rejects_outside:
  assumes "args_dp_mode a \<notin> set [''nondp_epochs'', ''nondp_batches'', ''dpsgd'', ''param'',
                                   ''param_fixed'', ''lfa'', ''local_pvi'']"
  shows "\<exists>msg. main_setup a client_data = Inl (ValueError msg)"
  using assms by (auto simp: main_setup_def main_checks_def)

lemma main_checks_accepts_seven:
  assumes "args_dp_mode a \<in> set [''nondp_epochs'', ''nondp_batches'', ''dpsgd'', ''param'',
                                   ''param_fixed'', ''lfa'', ''local_pvi'']"
  shows "main_checks a \<noteq> Inl (ValueError (''Unknown dp_mode: '' @ args_dp_mode a))"
  using assms by (auto simp: main_checks_def)

lemma set_up_clients_param_fixed:
  "client_data \<noteq> [] \<Longrightarrow>
   set_up_clients client_data ''param_fixed'' batch_size sampling_frac_q
     = Inl (ValueError ''Unknown dp_mode: param_fixed!'')"
  by (cases client_data) (simp_all add: set_up_clients_def)

end
